theory Spec2Isabelle
  imports Main
begin

section \<open>Text\<close>

text \<open>
  A JavaScript string is a sequence of UTF-16 code units and \<^verbatim>\<open>.length\<close> counts them.
  The model writes a string as a \<^typ>\<open>string\<close>, one list element per code unit, and so
  covers the code units 0 to 255; \<^const>\<open>length\<close> is \<^verbatim>\<open>.length\<close>.
\<close>

definition code_unit :: "char \<Rightarrow> nat" where
  "code_unit c = of_char c"

text \<open>The class \<^verbatim>\<open>\s\<close> of a JavaScript regular expression, on the code units below 256:
  tab, line feed, vertical tab, form feed, carriage return, space, no-break space.\<close>

definition is_space :: "char \<Rightarrow> bool" where
  "is_space c = (code_unit c \<in> {9, 10, 11, 12, 13, 32, 160})"

text \<open>The line terminators, which \<^verbatim>\<open>.\<close> does not match (no \<^verbatim>\<open>s\<close> flag).\<close>

definition is_line_terminator :: "char \<Rightarrow> bool" where
  "is_line_terminator c = (code_unit c \<in> {10, 13})"

section \<open>Auth actions (app/lib/actions/auth-actions.ts)\<close>

subsection \<open>isValidEmail\<close>

text \<open>The class \<^verbatim>\<open>[^\s@]\<close>.\<close>

definition email_atom :: "char \<Rightarrow> bool" where
  "email_atom c = (\<not> is_space c \<and> c \<noteq> CHR ''@'')"

text \<open>
  \<^verbatim>\<open>/^[^\s@]+@[^\s@]+\.[^\s@]+$/.test(email)\<close>. The first \<^verbatim>\<open>[^\s@]+\<close> can only end at
  the first code unit outside the class, which has to be the \<^verbatim>\<open>@\<close>. The rest has to
  consist of class members, one of them a dot that is neither the first nor the last.
\<close>

definition isValidEmail :: "string \<Rightarrow> bool" where
  "isValidEmail email =
     (let local_part = takeWhile email_atom email;
          rest = dropWhile email_atom email
      in local_part \<noteq> [] \<and>
         (case rest of
            [] \<Rightarrow> False
          | c # domain_part \<Rightarrow>
              c = CHR ''@'' \<and> list_all email_atom domain_part \<and>
              CHR ''.'' \<in> set (butlast (tl domain_part))))"

subsection \<open>isStrongPassword\<close>

definition is_lower :: "char \<Rightarrow> bool" where
  "is_lower c = (97 \<le> code_unit c \<and> code_unit c \<le> 122)"

definition is_upper :: "char \<Rightarrow> bool" where
  "is_upper c = (65 \<le> code_unit c \<and> code_unit c \<le> 90)"

definition is_digit :: "char \<Rightarrow> bool" where
  "is_digit c = (48 \<le> code_unit c \<and> code_unit c \<le> 57)"

text \<open>The class \<^verbatim>\<open>[!@#$%^&*()_+={}\[\]:;\"\'<>,.?/~`]\<close>.\<close>

definition is_special :: "char \<Rightarrow> bool" where
  "is_special c = (c \<in> set ''!@#$%^&*()_+={}[]:;\"<>,.?/~`'' \<or> c = CHR 0x27)"

text \<open>
  \<^verbatim>\<open>/^(?=.*[a-z])(?=.*[A-Z])(?=.*\d)(?=.*[...]).{8,}$/.test(password)\<close>. The tail
  \<^verbatim>\<open>.{8,}$\<close> runs from the start to the end of the input, so the password has at least 8
  code units and no line terminator; then each look-ahead asks for a member of its class
  anywhere.
\<close>

definition isStrongPassword :: "string \<Rightarrow> bool" where
  "isStrongPassword password =
     (list_ex is_lower password \<and> list_ex is_upper password \<and>
      list_ex is_digit password \<and> list_ex is_special password \<and>
      8 \<le> length password \<and> \<not> list_ex is_line_terminator password)"

subsection \<open>The identity provider\<close>

text \<open>
  The provider client is an external collaborator. Its answers are parameters of the
  model (the error a sign-in or a sign-up reports, if any), and every request made
  to it is logged, so that a run which never contacts the provider is one that leaves
  the log as it was.
\<close>

datatype idp_call =
  SignInWithPassword string string
| SignUp string string string bool

record idp =
  signIn_error :: "string \<Rightarrow> string \<Rightarrow> string option"
  signUp_error :: "string \<Rightarrow> string \<Rightarrow> string option"
  calls :: "idp_call list"

record LoginFormData =
  email :: string
  password :: string

record RegisterFormData = LoginFormData +
  name :: string

text \<open>The result \<^verbatim>\<open>{ error: string | null }\<close> of an action.\<close>

record action_result =
  error :: "string option"

definition login :: "idp \<Rightarrow> LoginFormData \<Rightarrow> idp \<times> action_result" where
  "login p d =
     (if \<not> isValidEmail (email d) \<or> \<not> isStrongPassword (password d)
      then (p, \<lparr>error = Some ''Invalid credentials.''\<rparr>)
      else
        let p' = p\<lparr>calls := calls p @ [SignInWithPassword (email d) (password d)]\<rparr>
        in case signIn_error p (email d) (password d) of
             Some e \<Rightarrow> (p', \<lparr>error = Some ''Invalid credentials.''\<rparr>)
           | None \<Rightarrow> (p', \<lparr>error = None\<rparr>))"

definition register :: "idp \<Rightarrow> RegisterFormData \<Rightarrow> idp \<times> action_result" where
  "register p d =
     (if \<not> isValidEmail (email d)
      then (p, \<lparr>error = Some ''Invalid email format.''\<rparr>)
      else if \<not> isStrongPassword (password d)
      then (p, \<lparr>error = Some (''Password must be at least 8 characters long and include an '' @
                  ''uppercase letter, a lowercase letter, a number, and a special character.'')\<rparr>)
      else
        let p' = p\<lparr>calls := calls p @ [SignUp (email d) (password d) (name d) False]\<rparr>
        in case signUp_error p (email d) (password d) of
             Some e \<Rightarrow> (p', \<lparr>error = Some ''Registration failed.''\<rparr>)
           | None \<Rightarrow> (p', \<lparr>error = None\<rparr>))"

section \<open>Poll actions (app/lib/actions/poll-actions.ts)\<close>

definition MAX_QUESTION_LENGTH :: nat where
  "MAX_QUESTION_LENGTH = 255"

definition MAX_OPTION_LENGTH :: nat where
  "MAX_OPTION_LENGTH = 100"

definition MAX_OPTIONS_COUNT :: nat where
  "MAX_OPTIONS_COUNT = 10"

subsection \<open>Rows, users and the store\<close>

text \<open>A user object of the identity provider: its id, and \<^verbatim>\<open>user_metadata.is_admin\<close>,
  which is optional (\<^verbatim>\<open>is_admin?: boolean\<close>).\<close>

record user =
  u_id :: string
  is_admin :: "bool option"

text \<open>A row of the table \<^verbatim>\<open>polls\<close>: id, user_id, question, options, is_public,
  created_at.\<close>

record poll =
  p_id :: string
  p_user_id :: string
  question :: string
  options :: "string list"
  is_public :: bool
  p_created_at :: int

text \<open>A row of the table \<^verbatim>\<open>votes\<close>: id, poll_id, user_id (null for an anonymous
  vote), option_index, created_at.\<close>

record vote =
  v_id :: string
  v_poll_id :: string
  v_user_id :: "string option"
  option_index :: int
  v_created_at :: int

text \<open>An error object of the data store client: \<^verbatim>\<open>error.code\<close> and
  \<^verbatim>\<open>error.message\<close>.\<close>

record db_error =
  code :: string
  message :: string

text \<open>
  What an action can see and change: the answer of \<^verbatim>\<open>supabase.auth.getUser()\<close>
  (\<^verbatim>\<open>data.user\<close> and \<^verbatim>\<open>error.message\<close>, each possibly null), the two tables, and the
  paths handed to \<^verbatim>\<open>revalidatePath\<close>.
\<close>

record world =
  auth_user :: "user option"
  auth_error :: "string option"
  polls_table :: "poll list"
  votes_table :: "vote list"
  revalidated :: "string list"

text \<open>The columns the store fills in when a row is inserted without them.\<close>

record generated =
  gen_id :: string
  gen_now :: int
  gen_public :: bool

text \<open>
  The data store client is an external collaborator. A request to it either fails
  as a whole, with an error object the model takes as a parameter (\<open>fault\<close>) and
  no change to the tables, or is carried out on the tables. Filters chained on one
  request are conjoined.

  \<^verbatim>\<open>.single()\<close> asks for exactly one row: with one matching row it yields that row and
  no error; with none, or with several, it yields no data and the error of code
  \<^verbatim>\<open>PGRST116\<close>.
\<close>

definition PGRST116 :: db_error where
  "PGRST116 = \<lparr>code = ''PGRST116'',
               message = ''JSON object requested, multiple (or no) rows returned''\<rparr>"

definition single :: "db_error option \<Rightarrow> 'a list \<Rightarrow> 'a option \<times> db_error option" where
  "single fault rows =
     (case fault of
        Some e \<Rightarrow> (None, Some e)
      | None \<Rightarrow> (case rows of [r] \<Rightarrow> (Some r, None) | _ \<Rightarrow> (None, Some PGRST116)))"

text \<open>\<^verbatim>\<open>.order("created_at", { ascending: false })\<close>.\<close>

definition newest_first :: "poll list \<Rightarrow> poll list" where
  "newest_first ps = rev (sort_key p_created_at ps)"

text \<open>The results \<^verbatim>\<open>{ polls, error }\<close> and \<^verbatim>\<open>{ poll, error }\<close>.\<close>

record polls_result = action_result +
  polls :: "poll list"

record poll_result = action_result +
  poll :: "poll option"

text \<open>The form, with the types the source gives its fields:
  \<^verbatim>\<open>formData.get("question") as string\<close> and \<^verbatim>\<open>formData.getAll("options") ... as
  string[]\<close>. Then \<^verbatim>\<open>.filter(Boolean)\<close> drops the empty strings and \<^verbatim>\<open>!question\<close> holds
  of the empty string.\<close>

record form_data =
  form_question :: string
  form_options :: "string list"

text \<open>The loop \<^verbatim>\<open>for (const option of options) if (option.length > MAX_OPTION_LENGTH)
  return ...\<close>: whether it returns.\<close>

fun option_too_long :: "string list \<Rightarrow> bool" where
  "option_too_long [] = False"
| "option_too_long (option # rest) =
     (if MAX_OPTION_LENGTH < length option then True else option_too_long rest)"

subsection \<open>createPoll\<close>

text \<open>The sanitizer (\<^verbatim>\<open>DOMPurify.sanitize\<close>) is a parameter.\<close>

definition createPoll ::
  "(string \<Rightarrow> string) \<Rightarrow> generated \<Rightarrow> db_error option \<Rightarrow> world \<Rightarrow> form_data
     \<Rightarrow> world \<times> action_result" where
  "createPoll sanitize g fault w formData =
     (let question = sanitize (form_question formData);
          options = map sanitize (filter (\<lambda>s. s \<noteq> []) (form_options formData))
      in if question = [] \<or> length options < 2
         then (w, \<lparr>error = Some ''Please provide a question and at least two options.''\<rparr>)
         else if MAX_QUESTION_LENGTH < length question
         then (w, \<lparr>error = Some ''Question exceeds maximum length of 255 characters.''\<rparr>)
         else if MAX_OPTIONS_COUNT < length options
         then (w, \<lparr>error = Some ''A poll cannot have more than 10 options.''\<rparr>)
         else if option_too_long options
         then (w, \<lparr>error =
                 Some ''One or more options exceed maximum length of 100 characters.''\<rparr>)
         else
           (case auth_error w of
              Some userError \<Rightarrow> (w, \<lparr>error = Some userError\<rparr>)
            | None \<Rightarrow>
               (case auth_user w of
                  None \<Rightarrow> (w, \<lparr>error = Some ''You must be logged in to create a poll.''\<rparr>)
                | Some u \<Rightarrow>
                   (case fault of
                      Some e \<Rightarrow> (w, \<lparr>error = Some (message e)\<rparr>)
                    | None \<Rightarrow>
                       (w\<lparr>polls_table := polls_table w @
                            [\<lparr>p_id = gen_id g, p_user_id = u_id u, question = question,
                              options = options, is_public = gen_public g,
                              p_created_at = gen_now g\<rparr>],
                          revalidated := revalidated w @ [''/polls'']\<rparr>,
                        \<lparr>error = None\<rparr>)))))"

subsection \<open>getUserPolls, getAdminPolls, getPollById\<close>

definition getUserPolls :: "db_error option \<Rightarrow> world \<Rightarrow> polls_result" where
  "getUserPolls fault w =
     (case auth_user w of
        None \<Rightarrow> \<lparr>error = Some ''Not authenticated'', polls = []\<rparr>
      | Some u \<Rightarrow>
         (case fault of
            Some e \<Rightarrow> \<lparr>error = Some (message e), polls = []\<rparr>
          | None \<Rightarrow>
             \<lparr>error = None,
              polls = newest_first (filter (\<lambda>p. p_user_id p = u_id u) (polls_table w))\<rparr>))"

definition getAdminPolls :: "db_error option \<Rightarrow> world \<Rightarrow> polls_result" where
  "getAdminPolls fault w =
     (if (case auth_user w of
            None \<Rightarrow> True
          | Some u \<Rightarrow> \<not> (case is_admin u of Some b \<Rightarrow> b | None \<Rightarrow> False))
      then \<lparr>error = Some ''Unauthorized access.'', polls = []\<rparr>
      else
        (case fault of
           Some e \<Rightarrow> \<lparr>error = Some (message e), polls = []\<rparr>
         | None \<Rightarrow> \<lparr>error = None, polls = newest_first (polls_table w)\<rparr>))"

definition getPollById :: "db_error option \<Rightarrow> world \<Rightarrow> string \<Rightarrow> poll_result" where
  "getPollById fault w ident =
     (let query =
            (case auth_user w of
               Some u \<Rightarrow>
                 (let isAdmin = (is_admin u = Some True)
                  in if \<not> isAdmin
                     then (\<lambda>p. p_id p = ident \<and> (p_user_id p = u_id u \<or> is_public p = True))
                     else (\<lambda>p. p_id p = ident))
             | None \<Rightarrow> (\<lambda>p. p_id p = ident \<and> is_public p = True))
      in case single fault (filter query (polls_table w)) of
           (data, Some e) \<Rightarrow> \<lparr>error = Some (message e), poll = None\<rparr>
         | (data, None) \<Rightarrow> \<lparr>error = None, poll = data\<rparr>)"

subsection \<open>submitVote\<close>

text \<open>The two requests to the store, the look-up of a prior vote and the insertion,
  can each fail on their own.\<close>

definition submitVote ::
  "generated \<Rightarrow> db_error option \<Rightarrow> db_error option \<Rightarrow> world \<Rightarrow> string \<Rightarrow> int
     \<Rightarrow> world \<times> action_result" where
  "submitVote g check_fault insert_fault w pollId optionIndex =
     (let user = auth_user w;
          early =
            (case user of
               None \<Rightarrow> None
             | Some u \<Rightarrow>
                (case single check_fault
                        (filter (\<lambda>v. v_poll_id v = pollId \<and> v_user_id v = Some (u_id u))
                           (votes_table w)) of
                   (existingVote, voteError) \<Rightarrow>
                     if voteError \<noteq> None \<and> code (the voteError) \<noteq> ''PGRST116''
                     then Some (message (the voteError))
                     else if existingVote \<noteq> None
                     then Some ''You have already voted on this poll.''
                     else None))
      in case early of
           Some msg \<Rightarrow> (w, \<lparr>error = Some msg\<rparr>)
         | None \<Rightarrow>
            (case insert_fault of
               Some e \<Rightarrow> (w, \<lparr>error = Some (message e)\<rparr>)
             | None \<Rightarrow>
                (w\<lparr>votes_table := votes_table w @
                     [\<lparr>v_id = gen_id g, v_poll_id = pollId,
                       v_user_id = map_option u_id user, option_index = optionIndex,
                       v_created_at = gen_now g\<rparr>]\<rparr>,
                 \<lparr>error = None\<rparr>)))"

subsection \<open>deletePoll\<close>

definition deletePoll :: "db_error option \<Rightarrow> world \<Rightarrow> string \<Rightarrow> world \<times> action_result" where
  "deletePoll fault w ident =
     (case auth_user w of
        None \<Rightarrow> (w, \<lparr>error = Some ''You must be logged in to delete a poll.''\<rparr>)
      | Some u \<Rightarrow>
         (let isAdmin = (is_admin u = Some True);
              query = (if \<not> isAdmin
                       then (\<lambda>p. p_id p = ident \<and> p_user_id p = u_id u)
                       else (\<lambda>p. p_id p = ident))
          in case fault of
               Some e \<Rightarrow> (w, \<lparr>error = Some (message e)\<rparr>)
             | None \<Rightarrow>
                (w\<lparr>polls_table := filter (\<lambda>p. \<not> query p) (polls_table w),
                   revalidated := revalidated w @ [''/polls'']\<rparr>,
                 \<lparr>error = None\<rparr>)))"

subsection \<open>updatePoll\<close>

definition updatePoll ::
  "(string \<Rightarrow> string) \<Rightarrow> db_error option \<Rightarrow> world \<Rightarrow> string \<Rightarrow> form_data
     \<Rightarrow> world \<times> action_result" where
  "updatePoll sanitize fault w pollId formData =
     (let question' = sanitize (form_question formData);
          options' = map sanitize (filter (\<lambda>s. s \<noteq> []) (form_options formData))
      in if question' = [] \<or> length options' < 2
         then (w, \<lparr>error = Some ''Please provide a question and at least two options.''\<rparr>)
         else if MAX_QUESTION_LENGTH < length question'
         then (w, \<lparr>error = Some ''Question exceeds maximum length of 255 characters.''\<rparr>)
         else if MAX_OPTIONS_COUNT < length options'
         then (w, \<lparr>error = Some ''A poll cannot have more than 10 options.''\<rparr>)
         else if option_too_long options'
         then (w, \<lparr>error =
                 Some ''One or more options exceed maximum length of 100 characters.''\<rparr>)
         else
           (case auth_error w of
              Some userError \<Rightarrow> (w, \<lparr>error = Some userError\<rparr>)
            | None \<Rightarrow>
               (case auth_user w of
                  None \<Rightarrow> (w, \<lparr>error = Some ''You must be logged in to update a poll.''\<rparr>)
                | Some u \<Rightarrow>
                   (case fault of
                      Some e \<Rightarrow> (w, \<lparr>error = Some (message e)\<rparr>)
                    | None \<Rightarrow>
                       (w\<lparr>polls_table :=
                            map (\<lambda>p. if p_id p = pollId \<and> p_user_id p = u_id u
                                      then p\<lparr>question := question', options := options'\<rparr>
                                      else p)
                              (polls_table w)\<rparr>,
                        \<lparr>error = None\<rparr>)))))"

section \<open>Invariants of the tables\<close>

text \<open>The votes table holds at most one row for a poll and a user who is not
  anonymous; rows without a user are not restricted.\<close>

definition one_vote_per_user :: "vote list \<Rightarrow> bool" where
  "one_vote_per_user vs =
     distinct (map (\<lambda>v. (v_poll_id v, v_user_id v)) (filter (\<lambda>v. v_user_id v \<noteq> None) vs))"

section \<open>Sample data\<close>

text \<open>Three users (the owner of the sample polls, another user, an administrator),
  a private and a public poll of the owner's, and a store holding both polls and one
  vote of the other user's on the private poll.\<close>

definition ann :: user where
  "ann = \<lparr>u_id = ''ann'', is_admin = Some False\<rparr>"

definition bob :: user where
  "bob = \<lparr>u_id = ''bob'', is_admin = None\<rparr>"

definition root :: user where
  "root = \<lparr>u_id = ''root'', is_admin = Some True\<rparr>"

definition private_poll :: poll where
  "private_poll = \<lparr>p_id = ''p1'', p_user_id = ''ann'', question = ''Tea or coffee?'',
                    options = [''tea'', ''coffee''], is_public = False, p_created_at = 1\<rparr>"

definition public_poll :: poll where
  "public_poll = \<lparr>p_id = ''p2'', p_user_id = ''ann'', question = ''Cats or dogs?'',
                   options = [''cats'', ''dogs''], is_public = True, p_created_at = 2\<rparr>"

definition bobs_vote :: vote where
  "bobs_vote = \<lparr>v_id = ''v1'', v_poll_id = ''p1'', v_user_id = Some ''bob'',
                 option_index = 0, v_created_at = 3\<rparr>"

definition sample_world :: "user option \<Rightarrow> world" where
  "sample_world caller =
     \<lparr>auth_user = caller, auth_error = None, polls_table = [private_poll, public_poll],
      votes_table = [bobs_vote], revalidated = []\<rparr>"

text \<open>The same store after two submissions of the other user's that ran side by side:
  both passed the look-up of a prior vote before either was inserted, and the table
  holds two votes of that user on the private poll.\<close>

definition bobs_second_vote :: vote where
  "bobs_second_vote = \<lparr>v_id = ''v2'', v_poll_id = ''p1'', v_user_id = Some ''bob'',
                        option_index = 1, v_created_at = 3\<rparr>"

definition raced_world :: world where
  "raced_world =
     \<lparr>auth_user = Some bob, auth_error = None, polls_table = [private_poll, public_poll],
      votes_table = [bobs_vote, bobs_second_vote], revalidated = []\<rparr>"

definition sample_generated :: generated where
  "sample_generated = \<lparr>gen_id = ''new'', gen_now = 4, gen_public = False\<rparr>"

text \<open>A sanitizer that leaves text alone except for an empty script element, which it
  removes, as \<^verbatim>\<open>DOMPurify.sanitize\<close> does.\<close>

definition sample_sanitize :: "string \<Rightarrow> string" where
  "sample_sanitize s = (if s = ''<script></script>'' then [] else s)"

section \<open>Properties of the auth actions\<close>

lemmas char_class_defs =
  email_atom_def is_space_def is_line_terminator_def is_lower_def is_upper_def
  is_digit_def is_special_def code_unit_def

lemmas sample_defs =
  ann_def bob_def root_def private_poll_def public_poll_def bobs_vote_def
  sample_world_def sample_generated_def sample_sanitize_def bobs_second_vote_def
  raced_world_def

text \<open>The email check, read as the regular expression reads: some text of the class,
  an \<^verbatim>\<open>@\<close>, some text of the class, a dot, some text of the class, none of the three
  empty.\<close>

lemma email_atom_dot: "email_atom (CHR ''.'')"
  by (simp add: email_atom_def is_space_def code_unit_def)

lemma isValidEmail_iff:
  "isValidEmail s \<longleftrightarrow>
     (\<exists>a b c. s = a @ ''@'' @ b @ ''.'' @ c \<and> a \<noteq> [] \<and> b \<noteq> [] \<and> c \<noteq> [] \<and>
        list_all email_atom a \<and> list_all email_atom b \<and> list_all email_atom c)"
proof
  assume v: "isValidEmail s"
  let ?a = "takeWhile email_atom s"
  from v obtain d where rest: "dropWhile email_atom s = CHR ''@'' # d"
    and a: "?a \<noteq> []" and d: "list_all email_atom d"
    and dot: "CHR ''.'' \<in> set (butlast (tl d))"
    by (auto simp: isValidEmail_def Let_def split: list.splits)
  from dot obtain xs ys where split: "butlast (tl d) = xs @ CHR ''.'' # ys"
    by (auto dest: split_list)
  then have "tl d \<noteq> []" by auto
  then have d_ne: "d \<noteq> []" by auto
  from \<open>tl d \<noteq> []\<close> have "tl d = butlast (tl d) @ [last (tl d)]" by simp
  with d_ne split have d_eq: "d = (hd d # xs) @ ''.'' @ (ys @ [last (tl d)])"
    by (metis append_Cons append_Nil append_assoc list.collapse)
  have "s = ?a @ dropWhile email_atom s" by simp
  with rest d_eq have "s = ?a @ ''@'' @ (hd d # xs) @ ''.'' @ (ys @ [last (tl d)])"
    by simp
  moreover have "list_all email_atom ?a"
    by (auto simp: list_all_iff dest: set_takeWhileD)
  moreover from d d_eq have "list_all email_atom (hd d # xs)"
    and "list_all email_atom (ys @ [last (tl d)])"
    by (metis list_all_append)+
  ultimately show "\<exists>a b c. s = a @ ''@'' @ b @ ''.'' @ c \<and> a \<noteq> [] \<and> b \<noteq> [] \<and> c \<noteq> [] \<and>
        list_all email_atom a \<and> list_all email_atom b \<and> list_all email_atom c"
    using a by blast
next
  assume "\<exists>a b c. s = a @ ''@'' @ b @ ''.'' @ c \<and> a \<noteq> [] \<and> b \<noteq> [] \<and> c \<noteq> [] \<and>
        list_all email_atom a \<and> list_all email_atom b \<and> list_all email_atom c"
  then obtain a b c where s: "s = a @ CHR ''@'' # (b @ CHR ''.'' # c)"
    and ne: "a \<noteq> []" "b \<noteq> []" "c \<noteq> []"
    and at: "list_all email_atom a" "list_all email_atom b" "list_all email_atom c"
    by auto
  have not_at: "\<not> email_atom (CHR ''@'')" by (simp add: email_atom_def)
  from at(1) not_at have tw: "takeWhile email_atom s = a"
    unfolding s by (simp add: list_all_iff takeWhile_append2)
  from at(1) not_at have dw: "dropWhile email_atom s = CHR ''@'' # (b @ CHR ''.'' # c)"
    unfolding s by (simp add: list_all_iff dropWhile_append2)
  from ne(2) obtain b0 bs where b: "b = b0 # bs" by (cases b) auto
  from ne(3) have "butlast (CHR ''.'' # c) = CHR ''.'' # butlast c" by simp
  then have "CHR ''.'' \<in> set (butlast (tl (b @ CHR ''.'' # c)))"
    unfolding b by (simp add: butlast_append)
  with tw dw ne(1) at email_atom_dot show "isValidEmail s"
    by (simp add: isValidEmail_def)
qed

text \<open>
  C5. Two calls of \<open>login\<close> whose inputs pass the format and the strength check and
  to which the identity provider reports a failure, whatever the failure is (a wrong
  password for an account that exists, an email with no account), return the same
  payload, \<^verbatim>\<open>{ error: "Invalid credentials." }\<close>.
\<close>

theorem login_provider_failures_indistinguishable:
  assumes "isValidEmail (email d1)" and "isStrongPassword (password d1)"
    and "signIn_error p1 (email d1) (password d1) = Some e1"
    and "isValidEmail (email d2)" and "isStrongPassword (password d2)"
    and "signIn_error p2 (email d2) (password d2) = Some e2"
  shows "snd (login p1 d1) = snd (login p2 d2) \<and>
         snd (login p1 d1) = \<lparr>error = Some ''Invalid credentials.''\<rparr>"
  using assms by (simp add: login_def Let_def)

theorem login_provider_failures_indistinguishable_witness:
  "snd (login \<lparr>signIn_error = (\<lambda>e pw. if e = ''ann@example.com''
                                        then (if pw = ''Correct#1horse'' then None
                                              else Some ''wrong password'')
                                        else Some ''no such user''),
               signUp_error = (\<lambda>e pw. None), calls = []\<rparr>
          \<lparr>email = ''ann@example.com'', password = ''Wrong#1horse''\<rparr>)
   = snd (login \<lparr>signIn_error = (\<lambda>e pw. if e = ''ann@example.com''
                                        then (if pw = ''Correct#1horse'' then None
                                              else Some ''wrong password'')
                                        else Some ''no such user''),
               signUp_error = (\<lambda>e pw. None), calls = []\<rparr>
          \<lparr>email = ''bob@example.com'', password = ''Wrong#1horse''\<rparr>)"
proof -
  let ?p = "\<lparr>signIn_error = (\<lambda>e pw. if e = ''ann@example.com''
                                        then (if pw = ''Correct#1horse'' then None
                                              else Some ''wrong password'')
                                        else Some ''no such user''),
               signUp_error = (\<lambda>e pw. None), calls = []\<rparr>"
  have e1: "isValidEmail ''ann@example.com''" and e2: "isValidEmail ''bob@example.com''"
    by (simp_all add: isValidEmail_def char_class_defs)
  have pw: "isStrongPassword ''Wrong#1horse''"
    by (simp add: isStrongPassword_def char_class_defs)
  show ?thesis
    using login_provider_failures_indistinguishable
      [of "\<lparr>email = ''ann@example.com'', password = ''Wrong#1horse''\<rparr>" ?p
          "''wrong password''"
          "\<lparr>email = ''bob@example.com'', password = ''Wrong#1horse''\<rparr>" ?p
          "''no such user''"]
      e1 e2 pw
    by simp
qed

text \<open>
  C9. When the email fails the format check, or the password fails the strength
  check, \<open>login\<close> returns \<^verbatim>\<open>{ error: "Invalid credentials." }\<close>; when the email fails
  the format check, \<open>register\<close> returns \<^verbatim>\<open>{ error: "Invalid email format." }\<close>. In both
  cases the provider is handed back as it was, with no request added to its log, and
  the result is the same for every provider.
\<close>

theorem invalid_input_never_reaches_provider:
  "(\<not> isValidEmail (email d) \<or> \<not> isStrongPassword (password d) \<longrightarrow>
      login p d = (p, \<lparr>error = Some ''Invalid credentials.''\<rparr>)) \<and>
   (\<not> isValidEmail (email r) \<longrightarrow>
      register p r = (p, \<lparr>error = Some ''Invalid email format.''\<rparr>))"
  by (simp add: login_def register_def)

theorem invalid_input_never_reaches_provider_witness:
  "login \<lparr>signIn_error = (\<lambda>e pw. None), signUp_error = (\<lambda>e pw. None), calls = []\<rparr>
      \<lparr>email = ''ann.example.com'', password = ''Correct#1horse''\<rparr>
    = (\<lparr>signIn_error = (\<lambda>e pw. None), signUp_error = (\<lambda>e pw. None), calls = []\<rparr>,
       \<lparr>error = Some ''Invalid credentials.''\<rparr>) \<and>
   login \<lparr>signIn_error = (\<lambda>e pw. None), signUp_error = (\<lambda>e pw. None), calls = []\<rparr>
      \<lparr>email = ''ann@example.com'', password = ''correct1horse''\<rparr>
    = (\<lparr>signIn_error = (\<lambda>e pw. None), signUp_error = (\<lambda>e pw. None), calls = []\<rparr>,
       \<lparr>error = Some ''Invalid credentials.''\<rparr>) \<and>
   register \<lparr>signIn_error = (\<lambda>e pw. None), signUp_error = (\<lambda>e pw. None), calls = []\<rparr>
      \<lparr>email = ''ann@example'', password = ''Correct#1horse'', name = ''Ann''\<rparr>
    = (\<lparr>signIn_error = (\<lambda>e pw. None), signUp_error = (\<lambda>e pw. None), calls = []\<rparr>,
       \<lparr>error = Some ''Invalid email format.''\<rparr>)"
proof -
  let ?p = "\<lparr>signIn_error = (\<lambda>e pw. None), signUp_error = (\<lambda>e pw. None), calls = []\<rparr>"
  have e1: "\<not> isValidEmail ''ann.example.com''" and e2: "\<not> isValidEmail ''ann@example''"
    by (simp_all add: isValidEmail_def char_class_defs)
  have pw: "\<not> isStrongPassword ''correct1horse''"
    by (simp add: isStrongPassword_def char_class_defs)
  show ?thesis
    using invalid_input_never_reaches_provider
      [of "\<lparr>email = ''ann.example.com'', password = ''Correct#1horse''\<rparr>" ?p
          "\<lparr>email = ''ann@example'', password = ''Correct#1horse'', name = ''Ann''\<rparr>"]
      invalid_input_never_reaches_provider
      [of "\<lparr>email = ''ann@example.com'', password = ''correct1horse''\<rparr>" ?p
          "\<lparr>email = ''ann@example'', password = ''Correct#1horse'', name = ''Ann''\<rparr>"]
      e1 e2 pw
    by simp
qed

section \<open>Properties of the poll actions\<close>

subsection \<open>Tables with a key\<close>

text \<open>The id of a poll is the primary key of its table: no two rows share it. On such
  a table a filter on the key selects at most the row that has it.\<close>

lemma filter_by_key:
  assumes "distinct (map f xs)" and "x \<in> set xs"
  shows "filter (\<lambda>y. f y = f x \<and> Q y) xs = (if Q x then [x] else [])"
  using assms
proof (induction xs)
  case Nil
  then show ?case by simp
next
  case (Cons a xs)
  show ?case
  proof (cases "a = x")
    case True
    from Cons.prems(1) have "\<forall>y \<in> set xs. f y \<noteq> f a" by (auto simp: image_iff)
    then have "filter (\<lambda>y. f y = f a \<and> Q y) xs = []" by (simp add: filter_empty_conv)
    with True show ?thesis by simp
  next
    case False
    with Cons.prems have x: "x \<in> set xs" and d: "distinct (map f xs)" by auto
    from Cons.prems(1) x have "f a \<noteq> f x" by (auto simp: image_iff)
    with Cons.IH [OF d x] show ?thesis by simp
  qed
qed

lemma filter_out_by_key:
  assumes "distinct (map f xs)" and "x \<in> set xs"
  shows "filter (\<lambda>y. \<not> (f y = f x \<and> Q y)) xs = (if Q x then removeAll x xs else xs)"
proof -
  from assms(1) have inj: "inj_on f (set xs)" by (simp add: distinct_map)
  have key: "f y = f x \<longleftrightarrow> y = x" if "y \<in> set xs" for y
    using inj that assms(2) by (auto dest: inj_onD)
  show ?thesis
  proof (cases "Q x")
    case True
    have "filter (\<lambda>y. \<not> (f y = f x \<and> Q y)) xs = filter (\<lambda>y. x \<noteq> y) xs"
      by (rule filter_cong) (use key True in auto)
    with True show ?thesis by (simp add: removeAll_filter_not_eq)
  next
    case False
    have "filter (\<lambda>y. \<not> (f y = f x \<and> Q y)) xs = filter (\<lambda>y. True) xs"
      by (rule filter_cong) (use key False in auto)
    with False show ?thesis by simp
  qed
qed

lemma map_fixed_member: "x \<in> set xs \<Longrightarrow> f x = x \<Longrightarrow> x \<in> set (map f xs)"
  by force

lemma filter_map_untouched:
  assumes "\<And>x. P x \<Longrightarrow> f x = x" and "\<And>x. P (f x) = P x"
  shows "filter P (map f xs) = filter P xs"
  using assms by (induction xs) auto

subsection \<open>getUserPolls\<close>

text \<open>
  C1, as the specification has it: with no session \<open>getUserPolls\<close> returns an empty list
  and a null error. The code returns the empty list together with the error
  \<^verbatim>\<open>"Not authenticated"\<close>.
\<close>

theorem getUserPolls_unauthenticated_counterexample:
  "error (getUserPolls None \<lparr>auth_user = None, auth_error = None, polls_table = [],
                              votes_table = [], revalidated = []\<rparr>)
     = Some ''Not authenticated'' \<and>
   error (getUserPolls None \<lparr>auth_user = None, auth_error = None, polls_table = [],
                              votes_table = [], revalidated = []\<rparr>) \<noteq> None"
  by (simp add: getUserPolls_def)

text \<open>
  C1, amended: with no session, \<open>getUserPolls\<close> returns the empty poll list together
  with the error \<^verbatim>\<open>"Not authenticated"\<close>, whatever the store holds or answers.
\<close>

theorem getUserPolls_unauthenticated:
  "auth_user w = None \<Longrightarrow>
     getUserPolls fault w = \<lparr>error = Some ''Not authenticated'', polls = []\<rparr>"
  by (simp add: getUserPolls_def)

theorem getUserPolls_unauthenticated_witness:
  "getUserPolls None
     \<lparr>auth_user = None, auth_error = None,
      polls_table = [\<lparr>p_id = ''p1'', p_user_id = ''ann'', question = ''Tea or coffee?'',
                       options = [''tea'', ''coffee''], is_public = True, p_created_at = 1\<rparr>],
      votes_table = [], revalidated = []\<rparr>
   = \<lparr>error = Some ''Not authenticated'', polls = []\<rparr>"
  using getUserPolls_unauthenticated
    [of "\<lparr>auth_user = None, auth_error = None,
      polls_table = [\<lparr>p_id = ''p1'', p_user_id = ''ann'', question = ''Tea or coffee?'',
                       options = [''tea'', ''coffee''], is_public = True, p_created_at = 1\<rparr>],
      votes_table = [], revalidated = []\<rparr>" None]
  by simp

subsection \<open>getPollById\<close>

text \<open>With the id a key of the table and the store answering, the poll of that id is
  returned exactly when the filter built for the caller lets it through.\<close>

lemma getPollById_visible:
  assumes "distinct (map p_id (polls_table w))" and "target \<in> set (polls_table w)"
  shows "getPollById None w (p_id target) =
     (if (case auth_user w of
            None \<Rightarrow> is_public target
          | Some u \<Rightarrow> is_admin u = Some True \<or> p_user_id target = u_id u \<or> is_public target)
      then \<lparr>error = None, poll = Some target\<rparr>
      else \<lparr>error = Some (message PGRST116), poll = None\<rparr>)"
proof (cases "auth_user w")
  case None
  with filter_by_key [OF assms, of is_public] show ?thesis
    by (simp add: getPollById_def single_def)
next
  case (Some u)
  show ?thesis
  proof (cases "is_admin u = Some True")
    case True
    with Some filter_by_key [OF assms, of "\<lambda>p. True"] show ?thesis
      by (simp add: getPollById_def single_def)
  next
    case False
    with Some filter_by_key [OF assms, of "\<lambda>p. p_user_id p = u_id u \<or> is_public p"]
    show ?thesis
      by (simp add: getPollById_def single_def)
  qed
qed

text \<open>
  C3. For a poll of the table, looked up by its id, with the store answering: a private
  poll is not found (no poll, the no-rows error) by an anonymous caller and by a caller
  who is neither its owner nor an administrator; its owner and every administrator get
  it; a public poll is returned to every caller.
\<close>

theorem getPollById_access:
  assumes "distinct (map p_id (polls_table w))" and "target \<in> set (polls_table w)"
  shows "(\<not> is_public target \<and> auth_user w = None \<longrightarrow>
            poll (getPollById None w (p_id target)) = None \<and>
            error (getPollById None w (p_id target)) = Some (message PGRST116)) \<and>
         (\<not> is_public target \<and> auth_user w = Some u \<and> p_user_id target \<noteq> u_id u \<and>
            is_admin u \<noteq> Some True \<longrightarrow>
            poll (getPollById None w (p_id target)) = None \<and>
            error (getPollById None w (p_id target)) = Some (message PGRST116)) \<and>
         (auth_user w = Some u \<and> (p_user_id target = u_id u \<or> is_admin u = Some True) \<longrightarrow>
            getPollById None w (p_id target) = \<lparr>error = None, poll = Some target\<rparr>) \<and>
         (is_public target \<longrightarrow>
            getPollById None w (p_id target) = \<lparr>error = None, poll = Some target\<rparr>)"
  using getPollById_visible [OF assms] by (auto split: option.splits)


theorem getPollById_access_witness:
  "poll (getPollById None (sample_world None) ''p1'') = None \<and>
   error (getPollById None (sample_world None) ''p1'') = Some (message PGRST116) \<and>
   poll (getPollById None (sample_world (Some bob)) ''p1'') = None \<and>
   getPollById None (sample_world (Some ann)) ''p1'' = \<lparr>error = None, poll = Some private_poll\<rparr> \<and>
   getPollById None (sample_world (Some root)) ''p1'' = \<lparr>error = None, poll = Some private_poll\<rparr> \<and>
   getPollById None (sample_world None) ''p2'' = \<lparr>error = None, poll = Some public_poll\<rparr>"
  using getPollById_access [of "sample_world None" private_poll ann]
    getPollById_access [of "sample_world (Some bob)" private_poll bob]
    getPollById_access [of "sample_world (Some ann)" private_poll ann]
    getPollById_access [of "sample_world (Some root)" private_poll root]
    getPollById_access [of "sample_world None" public_poll ann]
  by (simp add: sample_defs)

subsection \<open>deletePoll\<close>

text \<open>
  C4. A caller who is neither an administrator nor the owner of the poll deletes
  nothing (the table is as it was, the poll still in it) and gets a null error; the
  owner and an administrator delete the poll (it is the one row removed) and get a null
  error.
\<close>

theorem deletePoll_scoped_to_owner_or_admin:
  assumes "distinct (map p_id (polls_table w))" and "target \<in> set (polls_table w)"
    and "auth_user w = Some u"
  shows "(is_admin u \<noteq> Some True \<and> p_user_id target \<noteq> u_id u \<longrightarrow>
            polls_table (fst (deletePoll None w (p_id target))) = polls_table w \<and>
            target \<in> set (polls_table (fst (deletePoll None w (p_id target)))) \<and>
            snd (deletePoll None w (p_id target)) = \<lparr>error = None\<rparr>) \<and>
         (p_user_id target = u_id u \<or> is_admin u = Some True \<longrightarrow>
            polls_table (fst (deletePoll None w (p_id target)))
              = removeAll target (polls_table w) \<and>
            target \<notin> set (polls_table (fst (deletePoll None w (p_id target)))) \<and>
            snd (deletePoll None w (p_id target)) = \<lparr>error = None\<rparr>)"
proof (cases "is_admin u = Some True")
  case True
  with assms filter_out_by_key [OF assms(1,2), of "\<lambda>p. True"] show ?thesis
    by (simp add: deletePoll_def)
next
  case False
  with assms filter_out_by_key [OF assms(1,2), of "\<lambda>p. p_user_id p = u_id u"] show ?thesis
    by (simp add: deletePoll_def)
qed

theorem deletePoll_scoped_to_owner_or_admin_witness:
  "polls_table (fst (deletePoll None (sample_world (Some bob)) ''p1''))
     = [private_poll, public_poll] \<and>
   snd (deletePoll None (sample_world (Some bob)) ''p1'') = \<lparr>error = None\<rparr> \<and>
   polls_table (fst (deletePoll None (sample_world (Some ann)) ''p1'')) = [public_poll] \<and>
   snd (deletePoll None (sample_world (Some ann)) ''p1'') = \<lparr>error = None\<rparr> \<and>
   polls_table (fst (deletePoll None (sample_world (Some root)) ''p1'')) = [public_poll] \<and>
   snd (deletePoll None (sample_world (Some root)) ''p1'') = \<lparr>error = None\<rparr>"
  using deletePoll_scoped_to_owner_or_admin [of "sample_world (Some bob)" private_poll bob]
    deletePoll_scoped_to_owner_or_admin [of "sample_world (Some ann)" private_poll ann]
    deletePoll_scoped_to_owner_or_admin [of "sample_world (Some root)" private_poll root]
  by (simp add: sample_defs)

subsection \<open>submitVote\<close>

text \<open>A filter on the poll and the user selects at most one row of a votes table that
  satisfies its invariant, and the row of a user's vote when there is one.\<close>

lemma prior_vote_unique:
  assumes inv: "one_vote_per_user vs" and mem: "v \<in> set vs"
    and usr: "v_user_id v = Some uid"
  shows "filter (\<lambda>x. v_poll_id x = v_poll_id v \<and> v_user_id x = Some uid) vs = [v]"
proof -
  let ?known = "filter (\<lambda>x. v_user_id x \<noteq> None) vs"
  let ?key = "\<lambda>x. (v_poll_id x, v_user_id x)"
  from inv have d: "distinct (map ?key ?known)" by (simp add: one_vote_per_user_def)
  from mem usr have m: "v \<in> set ?known" by simp
  have "filter (\<lambda>x. v_poll_id x = v_poll_id v \<and> v_user_id x = Some uid) vs
          = filter (\<lambda>x. ?key x = ?key v \<and> True) ?known"
    using usr by (auto simp: filter_filter intro!: filter_cong)
  also have "\<dots> = [v]"
    using filter_by_key [OF d m, of "\<lambda>x. True"] by simp
  finally show ?thesis .
qed

lemma filter_key_at_most_one:
  assumes "distinct (map f xs)"
  shows "filter (\<lambda>x. f x = k) xs = [] \<or> (\<exists>v. filter (\<lambda>x. f x = k) xs = [v])"
  using assms
proof (induction xs)
  case Nil
  then show ?case by simp
next
  case (Cons a xs)
  show ?case
  proof (cases "f a = k")
    case True
    with Cons.prems have "\<forall>y \<in> set xs. f y \<noteq> k" by (auto simp: image_iff)
    then have "filter (\<lambda>x. f x = k) xs = []" by (simp add: filter_empty_conv)
    with True show ?thesis by simp
  next
    case False
    with Cons show ?thesis by simp
  qed
qed

lemma prior_votes_at_most_one:
  assumes "one_vote_per_user vs"
  shows "filter (\<lambda>x. v_poll_id x = P \<and> v_user_id x = Some uid) vs = [] \<or>
         (\<exists>v. filter (\<lambda>x. v_poll_id x = P \<and> v_user_id x = Some uid) vs = [v])"
proof -
  let ?known = "filter (\<lambda>x. v_user_id x \<noteq> None) vs"
  have eq: "filter (\<lambda>x. v_poll_id x = P \<and> v_user_id x = Some uid) vs
          = filter (\<lambda>x. (v_poll_id x, v_user_id x) = (P, Some uid)) ?known"
    by (auto simp: filter_filter intro!: filter_cong)
  from assms have "distinct (map (\<lambda>x. (v_poll_id x, v_user_id x)) ?known)"
    by (simp add: one_vote_per_user_def)
  from filter_key_at_most_one [OF this, of "(P, Some uid)"] eq show ?thesis by simp
qed

text \<open>With the look-up of the prior vote answered by the store, \<open>submitVote\<close> keeps the
  invariant of the votes table, whoever calls it and whatever the insertion does.\<close>

lemma submitVote_keeps_one_vote_per_user:
  assumes "one_vote_per_user (votes_table w)"
  shows "one_vote_per_user (votes_table (fst (submitVote g None ifault w P i)))"
proof (cases "auth_user w")
  case None
  with assms show ?thesis
    by (simp add: submitVote_def one_vote_per_user_def split: option.splits)
next
  case (Some u)
  let ?prior = "filter (\<lambda>x. v_poll_id x = P \<and> v_user_id x = Some (u_id u)) (votes_table w)"
  from prior_votes_at_most_one [OF assms, of P "u_id u"]
  consider "?prior = []" | v where "?prior = [v]" by blast
  then show ?thesis
  proof cases
    case 1
    then have "\<forall>x \<in> set (votes_table w). \<not> (v_poll_id x = P \<and> v_user_id x = Some (u_id u))"
      by (simp add: filter_empty_conv)
    then have fresh: "(P, Some (u_id u)) \<notin>
        (\<lambda>v. (v_poll_id v, v_user_id v)) ` {x \<in> set (votes_table w). v_user_id x \<noteq> None}"
      by auto
    from Some 1 assms fresh show ?thesis
      by (simp add: submitVote_def single_def PGRST116_def one_vote_per_user_def
            split: option.splits)
  next
    case 2
    with Some assms show ?thesis
      by (simp add: submitVote_def single_def)
  qed
qed

lemma submitVote_anonymous:
  assumes "auth_user w = None"
  shows "submitVote g cf None w P i =
           (w\<lparr>votes_table := votes_table w @
                 [\<lparr>v_id = gen_id g, v_poll_id = P, v_user_id = None, option_index = i,
                   v_created_at = gen_now g\<rparr>]\<rparr>,
            \<lparr>error = None\<rparr>)"
  using assms by (simp add: submitVote_def)

lemma anonymous_votes_accumulate:
  assumes "auth_user w = None"
  shows "auth_user (fold (\<lambda>g w'. fst (submitVote g cf None w' P i)) gs w) = None \<and>
         votes_table (fold (\<lambda>g w'. fst (submitVote g cf None w' P i)) gs w)
           = votes_table w @
             map (\<lambda>g. \<lparr>v_id = gen_id g, v_poll_id = P, v_user_id = None, option_index = i,
                        v_created_at = gen_now g\<rparr>) gs"
  using assms
proof (induction gs arbitrary: w)
  case Nil
  then show ?case by simp
next
  case (Cons g gs)
  let ?w = "fst (submitVote g cf None w P i)"
  from Cons.prems have a: "auth_user ?w = None" by (simp add: submitVote_anonymous)
  from Cons.IH [OF a] Cons.prems show ?case by (simp add: submitVote_anonymous)
qed

text \<open>
  C6. A user with a session who has a vote recorded for the poll is to get the error
  \<^verbatim>\<open>"You have already voted on this poll."\<close>, with no vote inserted. With two votes
  of the user recorded, the look-up with \<^verbatim>\<open>.single()\<close> yields no row and the error of
  code \<^verbatim>\<open>PGRST116\<close>, which the code takes for "no rows found": neither of its two
  returns is taken, a third vote of the user is inserted and the error returned is null.
\<close>

theorem submitVote_two_recorded_votes:
  "auth_user raced_world = Some bob \<and>
   filter (\<lambda>v. v_poll_id v = ''p1'' \<and> v_user_id v = Some (u_id bob)) (votes_table raced_world)
     = [bobs_vote, bobs_second_vote] \<and>
   single None [bobs_vote, bobs_second_vote] = (None, Some PGRST116) \<and>
   submitVote sample_generated None None raced_world ''p1'' 0
     = (raced_world\<lparr>votes_table :=
          [bobs_vote, bobs_second_vote,
           \<lparr>v_id = ''new'', v_poll_id = ''p1'', v_user_id = Some ''bob'', option_index = 0,
             v_created_at = 4\<rparr>]\<rparr>,
        \<lparr>error = None\<rparr>)"
  by (simp add: submitVote_def single_def PGRST116_def sample_defs)

text \<open>
  What \<open>submitVote\<close> does guarantee. (1) On a votes table that satisfies its invariant
  and with the look-up answered by the store, a user with a session who has a vote
  recorded for the poll gets the error \<^verbatim>\<open>"You have already voted on this poll."\<close> and
  the tables stay as they were. (2) For a caller with no session, after any number of
  accepted votes on the poll the next one is accepted as well, each adding a row.
  (3) With a session, when the look-up yields no row and the error of code
  \<^verbatim>\<open>PGRST116\<close>, the vote is inserted; when it yields an error of any other code, the
  message of that error is returned and nothing is inserted.
\<close>

theorem submitVote_one_vote_per_user:
  "(auth_user w = Some u \<and> one_vote_per_user (votes_table w) \<and> v \<in> set (votes_table w) \<and>
      v_poll_id v = P \<and> v_user_id v = Some (u_id u) \<longrightarrow>
      submitVote g None ifault w P i = (w, \<lparr>error = Some ''You have already voted on this poll.''\<rparr>)) \<and>
   (auth_user w = None \<longrightarrow>
      error (snd (submitVote g' cf None
                    (fold (\<lambda>g w'. fst (submitVote g cf None w' P i)) gs w) P i)) = None \<and>
      length (votes_table (fst (submitVote g' cf None
                    (fold (\<lambda>g w'. fst (submitVote g cf None w' P i)) gs w) P i)))
        = length (votes_table w) + length gs + 1) \<and>
   (auth_user w = Some u \<and> code e = ''PGRST116'' \<and>
      single cf (filter (\<lambda>x. v_poll_id x = P \<and> v_user_id x = Some (u_id u)) (votes_table w))
        = (None, Some e) \<longrightarrow>
      submitVote g cf None w P i =
        (w\<lparr>votes_table := votes_table w @
              [\<lparr>v_id = gen_id g, v_poll_id = P, v_user_id = Some (u_id u), option_index = i,
                v_created_at = gen_now g\<rparr>]\<rparr>,
         \<lparr>error = None\<rparr>)) \<and>
   (auth_user w = Some u \<and> code e \<noteq> ''PGRST116'' \<and>
      single cf (filter (\<lambda>x. v_poll_id x = P \<and> v_user_id x = Some (u_id u)) (votes_table w))
        = (d, Some e) \<longrightarrow>
      submitVote g cf ifault w P i = (w, \<lparr>error = Some (message e)\<rparr>))"
proof (intro conjI impI)
  assume h: "auth_user w = Some u \<and> one_vote_per_user (votes_table w) \<and>
      v \<in> set (votes_table w) \<and> v_poll_id v = P \<and> v_user_id v = Some (u_id u)"
  then have "filter (\<lambda>x. v_poll_id x = P \<and> v_user_id x = Some (u_id u)) (votes_table w) = [v]"
    using prior_vote_unique [of "votes_table w" v "u_id u"] by auto
  with h show "submitVote g None ifault w P i
                 = (w, \<lparr>error = Some ''You have already voted on this poll.''\<rparr>)"
    by (simp add: submitVote_def single_def)
next
  assume a: "auth_user w = None"
  let ?w = "fold (\<lambda>g w'. fst (submitVote g cf None w' P i)) gs w"
  from anonymous_votes_accumulate [OF a, of cf P i gs]
  have a': "auth_user ?w = None"
    and v: "length (votes_table ?w) = length (votes_table w) + length gs" by simp_all
  from a' show "error (snd (submitVote g' cf None ?w P i)) = None"
    by (simp add: submitVote_anonymous)
  from a' v show "length (votes_table (fst (submitVote g' cf None ?w P i)))
        = length (votes_table w) + length gs + 1"
    by (simp add: submitVote_anonymous)
next
  assume "auth_user w = Some u \<and> code e = ''PGRST116'' \<and>
      single cf (filter (\<lambda>x. v_poll_id x = P \<and> v_user_id x = Some (u_id u)) (votes_table w))
        = (None, Some e)"
  then show "submitVote g cf None w P i =
        (w\<lparr>votes_table := votes_table w @
              [\<lparr>v_id = gen_id g, v_poll_id = P, v_user_id = Some (u_id u), option_index = i,
                v_created_at = gen_now g\<rparr>]\<rparr>,
         \<lparr>error = None\<rparr>)"
    by (simp add: submitVote_def)
next
  assume "auth_user w = Some u \<and> code e \<noteq> ''PGRST116'' \<and>
      single cf (filter (\<lambda>x. v_poll_id x = P \<and> v_user_id x = Some (u_id u)) (votes_table w))
        = (d, Some e)"
  then show "submitVote g cf ifault w P i = (w, \<lparr>error = Some (message e)\<rparr>)"
    by (simp add: submitVote_def)
qed

theorem submitVote_one_vote_per_user_witness:
  "submitVote sample_generated None None (sample_world (Some bob)) ''p1'' 1
     = (sample_world (Some bob), \<lparr>error = Some ''You have already voted on this poll.''\<rparr>) \<and>
   error (snd (submitVote sample_generated None None
                 (fold (\<lambda>g w'. fst (submitVote g None None w' ''p1'' 0))
                    [sample_generated, sample_generated] (sample_world None)) ''p1'' 0)) = None \<and>
   length (votes_table (fst (submitVote sample_generated None None
                 (fold (\<lambda>g w'. fst (submitVote g None None w' ''p1'' 0))
                    [sample_generated, sample_generated] (sample_world None)) ''p1'' 0))) = 4 \<and>
   submitVote sample_generated None None (sample_world (Some ann)) ''p1'' 0
     = ((sample_world (Some ann))\<lparr>votes_table :=
           [bobs_vote, \<lparr>v_id = ''new'', v_poll_id = ''p1'', v_user_id = Some ''ann'',
                        option_index = 0, v_created_at = 4\<rparr>]\<rparr>,
        \<lparr>error = None\<rparr>) \<and>
   submitVote sample_generated (Some \<lparr>code = ''08006'', message = ''connection failure''\<rparr>) None
       (sample_world (Some bob)) ''p1'' 0
     = (sample_world (Some bob), \<lparr>error = Some ''connection failure''\<rparr>)"
proof -
  have bob: "auth_user (sample_world (Some bob)) = Some bob"
    and inv: "one_vote_per_user (votes_table (sample_world (Some bob)))"
    and mem: "bobs_vote \<in> set (votes_table (sample_world (Some bob)))"
    and key: "v_poll_id bobs_vote = ''p1''" "v_user_id bobs_vote = Some (u_id bob)"
    by (simp_all add: sample_defs one_vote_per_user_def)
  have anon: "auth_user (sample_world None) = None"
    and len: "length (votes_table (sample_world None)) = 1"
    by (simp_all add: sample_world_def)
  have ann: "auth_user (sample_world (Some ann)) = Some ann"
    and none: "single None (filter (\<lambda>x. v_poll_id x = ''p1'' \<and> v_user_id x = Some (u_id ann))
                 (votes_table (sample_world (Some ann)))) = (None, Some PGRST116)"
    and c: "code PGRST116 = ''PGRST116''"
    and row: "gen_id sample_generated = ''new''" "gen_now sample_generated = 4"
       "u_id ann = ''ann''" "votes_table (sample_world (Some ann)) = [bobs_vote]"
    by (simp_all add: sample_defs single_def PGRST116_def)
  have down: "single (Some \<lparr>code = ''08006'', message = ''connection failure''\<rparr>)
                (filter (\<lambda>x. v_poll_id x = ''p1'' \<and> v_user_id x = Some (u_id bob))
                   (votes_table (sample_world (Some bob))))
              = (None, Some \<lparr>code = ''08006'', message = ''connection failure''\<rparr>)"
    by (simp add: single_def)
  note t = submitVote_one_vote_per_user
  show ?thesis
    using t [where w = "sample_world (Some bob)" and u = bob and v = bobs_vote
               and P = "''p1''" and g = sample_generated and ifault = None and i = 1]
      t [where w = "sample_world None" and P = "''p1''" and g' = sample_generated
               and cf = None and i = 0 and gs = "[sample_generated, sample_generated]"]
      t [where w = "sample_world (Some ann)" and u = ann and P = "''p1''"
               and g = sample_generated and cf = None and i = 0 and e = PGRST116]
      t [where w = "sample_world (Some bob)" and u = bob and P = "''p1''"
               and g = sample_generated and ifault = None and i = 0 and d = None
               and cf = "Some \<lparr>code = ''08006'', message = ''connection failure''\<rparr>"
               and e = "\<lparr>code = ''08006'', message = ''connection failure''\<rparr>"]
      bob inv mem key anon len ann none c row down
    by simp
qed

text \<open>
  C7. \<open>submitVote\<close> never looks at the value of \<open>optionIndex\<close> nor at the polls table:
  the payload it returns is the same for every index and every polls table, and whenever
  it returns a null error the row it has added carries the index it was given, in or out
  of the bounds of the poll's options.
\<close>

theorem submitVote_index_unchecked:
  "snd (submitVote g cf ifault w P i) = snd (submitVote g cf ifault (w\<lparr>polls_table := ps\<rparr>) P j) \<and>
   (error (snd (submitVote g cf ifault w P i)) = None \<longrightarrow>
      votes_table (fst (submitVote g cf ifault w P i)) =
        votes_table w @
          [\<lparr>v_id = gen_id g, v_poll_id = P, v_user_id = map_option u_id (auth_user w),
            option_index = i, v_created_at = gen_now g\<rparr>])"
  by (auto simp: submitVote_def Let_def split: option.splits prod.splits)

theorem submitVote_index_unchecked_witness:
  "length (options private_poll) = 2 \<and>
   submitVote sample_generated None None (sample_world None) (p_id private_poll) 7
     = ((sample_world None)\<lparr>votes_table :=
           [bobs_vote, \<lparr>v_id = ''new'', v_poll_id = ''p1'', v_user_id = None,
                        option_index = 7, v_created_at = 4\<rparr>]\<rparr>,
        \<lparr>error = None\<rparr>) \<and>
   votes_table (fst (submitVote sample_generated None None (sample_world None)
                       (p_id private_poll) (- 1)))
     = [bobs_vote, \<lparr>v_id = ''new'', v_poll_id = ''p1'', v_user_id = None,
                    option_index = - 1, v_created_at = 4\<rparr>]"
proof -
  have ok: "error (snd (submitVote sample_generated None None (sample_world None)
                          (p_id private_poll) k)) = None" for k
    by (simp add: submitVote_def sample_defs)
  have run: "submitVote sample_generated None None (sample_world None) (p_id private_poll) 7
     = ((sample_world None)\<lparr>votes_table :=
           [bobs_vote, \<lparr>v_id = ''new'', v_poll_id = ''p1'', v_user_id = None,
                        option_index = 7, v_created_at = 4\<rparr>]\<rparr>,
        \<lparr>error = None\<rparr>)"
    by (simp add: submitVote_def sample_defs)
  have facts: "length (options private_poll) = 2" "p_id private_poll = ''p1''"
      "votes_table (sample_world None) = [bobs_vote]" "auth_user (sample_world None) = None"
      "gen_id sample_generated = ''new''" "gen_now sample_generated = 4"
    by (simp_all add: sample_defs)
  show ?thesis
    using submitVote_index_unchecked
        [where g = sample_generated and cf = None and ifault = None
           and w = "sample_world None" and P = "p_id private_poll" and i = "- 1"]
      ok [of "- 1"] run facts
    by simp
qed

subsection \<open>Validation in createPoll and updatePoll\<close>

text \<open>The checks of both actions, with the lengths written out: the options counted
  are the submitted ones that are not empty, whatever the sanitizer makes of them.\<close>

lemma option_too_long_iff:
  "option_too_long xs \<longleftrightarrow> (\<exists>x \<in> set xs. MAX_OPTION_LENGTH < length x)"
  by (induction xs) auto

lemma option_too_long_sanitized:
  "option_too_long (map sanitize (filter (\<lambda>s. s \<noteq> []) opts)) \<longleftrightarrow>
     (\<exists>s \<in> set opts. s \<noteq> [] \<and> 100 < length (sanitize s))"
  by (auto simp: option_too_long_iff MAX_OPTION_LENGTH_def)

lemma createPoll_checks:
  "createPoll sanitize g fault w fd =
     (if sanitize (form_question fd) = [] \<or>
         length (filter (\<lambda>s. s \<noteq> []) (form_options fd)) < 2
      then (w, \<lparr>error = Some ''Please provide a question and at least two options.''\<rparr>)
      else if 255 < length (sanitize (form_question fd))
      then (w, \<lparr>error = Some ''Question exceeds maximum length of 255 characters.''\<rparr>)
      else if 10 < length (filter (\<lambda>s. s \<noteq> []) (form_options fd))
      then (w, \<lparr>error = Some ''A poll cannot have more than 10 options.''\<rparr>)
      else if \<exists>s \<in> set (form_options fd). s \<noteq> [] \<and> 100 < length (sanitize s)
      then (w, \<lparr>error = Some ''One or more options exceed maximum length of 100 characters.''\<rparr>)
      else case auth_error w of
             Some userError \<Rightarrow> (w, \<lparr>error = Some userError\<rparr>)
           | None \<Rightarrow>
              (case auth_user w of
                 None \<Rightarrow> (w, \<lparr>error = Some ''You must be logged in to create a poll.''\<rparr>)
               | Some u \<Rightarrow>
                  (case fault of
                     Some e \<Rightarrow> (w, \<lparr>error = Some (message e)\<rparr>)
                   | None \<Rightarrow>
                      (w\<lparr>polls_table := polls_table w @
                           [\<lparr>p_id = gen_id g, p_user_id = u_id u,
                             question = sanitize (form_question fd),
                             options = map sanitize (filter (\<lambda>s. s \<noteq> []) (form_options fd)),
                             is_public = gen_public g, p_created_at = gen_now g\<rparr>],
                         revalidated := revalidated w @ [''/polls'']\<rparr>,
                       \<lparr>error = None\<rparr>))))"
  unfolding createPoll_def Let_def option_too_long_sanitized
    MAX_QUESTION_LENGTH_def MAX_OPTIONS_COUNT_def length_map
  by (rule refl)

lemma updatePoll_checks:
  "updatePoll sanitize fault w pollId fd =
     (if sanitize (form_question fd) = [] \<or>
         length (filter (\<lambda>s. s \<noteq> []) (form_options fd)) < 2
      then (w, \<lparr>error = Some ''Please provide a question and at least two options.''\<rparr>)
      else if 255 < length (sanitize (form_question fd))
      then (w, \<lparr>error = Some ''Question exceeds maximum length of 255 characters.''\<rparr>)
      else if 10 < length (filter (\<lambda>s. s \<noteq> []) (form_options fd))
      then (w, \<lparr>error = Some ''A poll cannot have more than 10 options.''\<rparr>)
      else if \<exists>s \<in> set (form_options fd). s \<noteq> [] \<and> 100 < length (sanitize s)
      then (w, \<lparr>error = Some ''One or more options exceed maximum length of 100 characters.''\<rparr>)
      else case auth_error w of
             Some userError \<Rightarrow> (w, \<lparr>error = Some userError\<rparr>)
           | None \<Rightarrow>
              (case auth_user w of
                 None \<Rightarrow> (w, \<lparr>error = Some ''You must be logged in to update a poll.''\<rparr>)
               | Some u \<Rightarrow>
                  (case fault of
                     Some e \<Rightarrow> (w, \<lparr>error = Some (message e)\<rparr>)
                   | None \<Rightarrow>
                      (w\<lparr>polls_table :=
                           map (\<lambda>p. if p_id p = pollId \<and> p_user_id p = u_id u
                                     then p\<lparr>question := sanitize (form_question fd),
                                            options := map sanitize
                                              (filter (\<lambda>s. s \<noteq> []) (form_options fd))\<rparr>
                                     else p)
                             (polls_table w)\<rparr>,
                       \<lparr>error = None\<rparr>))))"
  unfolding updatePoll_def Let_def option_too_long_sanitized
    MAX_QUESTION_LENGTH_def MAX_OPTIONS_COUNT_def length_map
  by (rule refl)

text \<open>
  C8, as the specification has it: rejection exactly when, after sanitization, the
  question is empty, fewer than 2 options are not empty, the question is longer than
  255, there are more than 10 options or an option is longer than 100, each with a
  message of its own. Two submitted options that the sanitizer empties leave no
  non-empty option after sanitization, and both actions accept them; and an empty
  question and a single option get the same message.
\<close>

theorem poll_validation_counterexample:
  "filter (\<lambda>s. s \<noteq> []) (map sample_sanitize [''<script></script>'', ''<script></script>'']) = [] \<and>
   snd (createPoll sample_sanitize sample_generated None (sample_world (Some ann))
          \<lparr>form_question = ''Pick one'',
           form_options = [''<script></script>'', ''<script></script>'']\<rparr>)
     = \<lparr>error = None\<rparr> \<and>
   snd (updatePoll sample_sanitize None (sample_world (Some ann)) ''p1''
          \<lparr>form_question = ''Pick one'',
           form_options = [''<script></script>'', ''<script></script>'']\<rparr>)
     = \<lparr>error = None\<rparr> \<and>
   snd (createPoll sample_sanitize sample_generated None (sample_world (Some ann))
          \<lparr>form_question = [], form_options = [''tea'', ''coffee'']\<rparr>)
     = snd (createPoll sample_sanitize sample_generated None (sample_world (Some ann))
          \<lparr>form_question = ''Pick one'', form_options = [''tea'']\<rparr>)"
  by (simp add: createPoll_checks updatePoll_checks sample_defs)

text \<open>
  C8, amended. Provided the sanitizer empties none of the submitted options that are not
  empty: with \<open>q\<close> the sanitized question, \<open>opts\<close> the options after sanitization, \<open>n\<close>
  the number of them that are not empty and \<open>long\<close> the existence of one longer than
  100, \<open>createPoll\<close> and \<open>updatePoll\<close> reject, leaving the store as it is, with
  \<^verbatim>\<open>"Please provide a question and at least two options."\<close> when \<open>q\<close> is empty or
  \<open>n < 2\<close> (one message for both conditions), with the message on the question's length
  when \<open>q\<close> is longer than 255, with the message on the number of options when there
  are more than 10, with the message on the options' length when \<open>long\<close>, the first
  failing check in this order deciding; and when no check fails, with a session and no
  error from the provider or the store, they return a null error. So a question of 255
  and a tenth option are accepted, a question of 256 and an eleventh option are
  rejected.
\<close>

theorem poll_validation:
  fixes sanitize :: "string \<Rightarrow> string" and fd :: form_data
  defines "q \<equiv> sanitize (form_question fd)"
    and "opts \<equiv> map sanitize (filter (\<lambda>s. s \<noteq> []) (form_options fd))"
  defines "n \<equiv> length (filter (\<lambda>s. s \<noteq> []) opts)"
    and "long \<equiv> (\<exists>s \<in> set opts. 100 < length s)"
  assumes kept: "\<forall>s \<in> set (form_options fd). s \<noteq> [] \<longrightarrow> sanitize s \<noteq> []"
  shows
    "(q = [] \<or> n < 2 \<longrightarrow>
        createPoll sanitize g fault w fd
          = (w, \<lparr>error = Some ''Please provide a question and at least two options.''\<rparr>) \<and>
        updatePoll sanitize fault w pollId fd
          = (w, \<lparr>error = Some ''Please provide a question and at least two options.''\<rparr>)) \<and>
     (q \<noteq> [] \<and> 2 \<le> n \<and> 255 < length q \<longrightarrow>
        createPoll sanitize g fault w fd
          = (w, \<lparr>error = Some ''Question exceeds maximum length of 255 characters.''\<rparr>) \<and>
        updatePoll sanitize fault w pollId fd
          = (w, \<lparr>error = Some ''Question exceeds maximum length of 255 characters.''\<rparr>)) \<and>
     (q \<noteq> [] \<and> length q \<le> 255 \<and> 10 < length opts \<longrightarrow>
        createPoll sanitize g fault w fd
          = (w, \<lparr>error = Some ''A poll cannot have more than 10 options.''\<rparr>) \<and>
        updatePoll sanitize fault w pollId fd
          = (w, \<lparr>error = Some ''A poll cannot have more than 10 options.''\<rparr>)) \<and>
     (q \<noteq> [] \<and> length q \<le> 255 \<and> 2 \<le> n \<and> length opts \<le> 10 \<and> long \<longrightarrow>
        createPoll sanitize g fault w fd
          = (w, \<lparr>error =
                 Some ''One or more options exceed maximum length of 100 characters.''\<rparr>) \<and>
        updatePoll sanitize fault w pollId fd
          = (w, \<lparr>error =
                 Some ''One or more options exceed maximum length of 100 characters.''\<rparr>)) \<and>
     (q \<noteq> [] \<and> length q \<le> 255 \<and> 2 \<le> n \<and> length opts \<le> 10 \<and> \<not> long \<and>
      auth_error w = None \<and> auth_user w \<noteq> None \<and> fault = None \<longrightarrow>
        snd (createPoll sanitize g fault w fd) = \<lparr>error = None\<rparr> \<and>
        snd (updatePoll sanitize fault w pollId fd) = \<lparr>error = None\<rparr>)"
proof -
  from kept have "filter (\<lambda>s. s \<noteq> []) opts = opts"
    unfolding opts_def by (simp add: filter_id_conv)
  then have n: "n = length (filter (\<lambda>s. s \<noteq> []) (form_options fd))"
    unfolding n_def by (simp add: opts_def)
  have len: "length opts = length (filter (\<lambda>s. s \<noteq> []) (form_options fd))"
    by (simp add: opts_def)
  have long: "long \<longleftrightarrow> (\<exists>s \<in> set (form_options fd). s \<noteq> [] \<and> 100 < length (sanitize s))"
    unfolding long_def opts_def by auto
  show ?thesis
    unfolding n len long q_def
    by (auto simp: createPoll_checks updatePoll_checks)
qed

theorem poll_validation_witness:
  "snd (createPoll (\<lambda>s. s) sample_generated None (sample_world (Some ann))
          \<lparr>form_question = replicate 255 (CHR ''a''), form_options = replicate 10 ''x''\<rparr>)
     = \<lparr>error = None\<rparr> \<and>
   snd (updatePoll (\<lambda>s. s) None (sample_world (Some ann)) ''p1''
          \<lparr>form_question = replicate 255 (CHR ''a''), form_options = replicate 10 ''x''\<rparr>)
     = \<lparr>error = None\<rparr> \<and>
   snd (createPoll (\<lambda>s. s) sample_generated None (sample_world (Some ann))
          \<lparr>form_question = replicate 256 (CHR ''a''), form_options = replicate 10 ''x''\<rparr>)
     = \<lparr>error = Some ''Question exceeds maximum length of 255 characters.''\<rparr> \<and>
   snd (createPoll (\<lambda>s. s) sample_generated None (sample_world (Some ann))
          \<lparr>form_question = replicate 255 (CHR ''a''), form_options = replicate 11 ''x''\<rparr>)
     = \<lparr>error = Some ''A poll cannot have more than 10 options.''\<rparr> \<and>
   snd (createPoll (\<lambda>s. s) sample_generated None (sample_world (Some ann))
          \<lparr>form_question = ''Pick one'', form_options = [''tea'', [], []]\<rparr>)
     = \<lparr>error = Some ''Please provide a question and at least two options.''\<rparr> \<and>
   snd (createPoll (\<lambda>s. s) sample_generated None (sample_world (Some ann))
          \<lparr>form_question = ''Pick one'',
           form_options = [''tea'', replicate 101 (CHR ''a'')]\<rparr>)
     = \<lparr>error = Some ''One or more options exceed maximum length of 100 characters.''\<rparr>"
proof -
  have w: "auth_error (sample_world (Some ann)) = None"
      "auth_user (sample_world (Some ann)) \<noteq> None"
    by (simp_all add: sample_world_def)
  note t = poll_validation [where sanitize = "\<lambda>s. s" and g = sample_generated and fault = None
      and w = "sample_world (Some ann)" and pollId = "''p1''"]
  show ?thesis
    using w
      t [where fd = "\<lparr>form_question = replicate 255 (CHR ''a''),
                      form_options = replicate 10 ''x''\<rparr>"]
      t [where fd = "\<lparr>form_question = replicate 256 (CHR ''a''),
                      form_options = replicate 10 ''x''\<rparr>"]
      t [where fd = "\<lparr>form_question = replicate 255 (CHR ''a''),
                      form_options = replicate 11 ''x''\<rparr>"]
      t [where fd = "\<lparr>form_question = ''Pick one'', form_options = [''tea'', [], []]\<rparr>"]
      t [where fd = "\<lparr>form_question = ''Pick one'',
                      form_options = [''tea'', replicate 101 (CHR ''a'')]\<rparr>"]
    by simp
qed

text \<open>
  C10. In \<open>createPoll\<close> and \<open>updatePoll\<close> the checks on the input come before the check
  on the session: input that fails a check gets the message of that check whatever the
  session is (also with none); input that passes every check, with no session and no
  error from the provider, gets the "must be logged in" message; and, unless the
  provider or the store reports an error with that very text, the "must be logged in"
  message is returned only when there is no user and the input passes every check.
\<close>

theorem validation_before_authentication:
  fixes sanitize :: "string \<Rightarrow> string" and fd :: form_data
  defines "q \<equiv> sanitize (form_question fd)"
    and "n \<equiv> length (filter (\<lambda>s. s \<noteq> []) (form_options fd))"
    and "long \<equiv> (\<exists>s \<in> set (form_options fd). s \<noteq> [] \<and> 100 < length (sanitize s))"
  shows
    "(q = [] \<or> n < 2 \<longrightarrow>
        snd (createPoll sanitize g fault w fd)
          = \<lparr>error = Some ''Please provide a question and at least two options.''\<rparr> \<and>
        snd (updatePoll sanitize fault w pollId fd)
          = \<lparr>error = Some ''Please provide a question and at least two options.''\<rparr>) \<and>
     (q \<noteq> [] \<and> 2 \<le> n \<and> 255 < length q \<longrightarrow>
        snd (createPoll sanitize g fault w fd)
          = \<lparr>error = Some ''Question exceeds maximum length of 255 characters.''\<rparr> \<and>
        snd (updatePoll sanitize fault w pollId fd)
          = \<lparr>error = Some ''Question exceeds maximum length of 255 characters.''\<rparr>) \<and>
     (q \<noteq> [] \<and> length q \<le> 255 \<and> 10 < n \<longrightarrow>
        snd (createPoll sanitize g fault w fd)
          = \<lparr>error = Some ''A poll cannot have more than 10 options.''\<rparr> \<and>
        snd (updatePoll sanitize fault w pollId fd)
          = \<lparr>error = Some ''A poll cannot have more than 10 options.''\<rparr>) \<and>
     (q \<noteq> [] \<and> length q \<le> 255 \<and> 2 \<le> n \<and> n \<le> 10 \<and> long \<longrightarrow>
        snd (createPoll sanitize g fault w fd)
          = \<lparr>error = Some ''One or more options exceed maximum length of 100 characters.''\<rparr> \<and>
        snd (updatePoll sanitize fault w pollId fd)
          = \<lparr>error =
               Some ''One or more options exceed maximum length of 100 characters.''\<rparr>) \<and>
     (q \<noteq> [] \<and> length q \<le> 255 \<and> 2 \<le> n \<and> n \<le> 10 \<and> \<not> long \<and>
      auth_error w = None \<and> auth_user w = None \<longrightarrow>
        createPoll sanitize g fault w fd
          = (w, \<lparr>error = Some ''You must be logged in to create a poll.''\<rparr>) \<and>
        updatePoll sanitize fault w pollId fd
          = (w, \<lparr>error = Some ''You must be logged in to update a poll.''\<rparr>)) \<and>
     (auth_error w \<noteq> Some ''You must be logged in to create a poll.'' \<and>
      map_option message fault \<noteq> Some ''You must be logged in to create a poll.'' \<and>
      snd (createPoll sanitize g fault w fd)
        = \<lparr>error = Some ''You must be logged in to create a poll.''\<rparr> \<longrightarrow>
        auth_user w = None \<and>
        q \<noteq> [] \<and> length q \<le> 255 \<and> 2 \<le> n \<and> n \<le> 10 \<and> \<not> long) \<and>
     (auth_error w \<noteq> Some ''You must be logged in to update a poll.'' \<and>
      map_option message fault \<noteq> Some ''You must be logged in to update a poll.'' \<and>
      snd (updatePoll sanitize fault w pollId fd)
        = \<lparr>error = Some ''You must be logged in to update a poll.''\<rparr> \<longrightarrow>
        auth_user w = None \<and>
        q \<noteq> [] \<and> length q \<le> 255 \<and> 2 \<le> n \<and> n \<le> 10 \<and> \<not> long)"
proof -
  have rejected: "(q = [] \<or> n < 2 \<longrightarrow>
        snd (createPoll sanitize g fault w fd)
          = \<lparr>error = Some ''Please provide a question and at least two options.''\<rparr> \<and>
        snd (updatePoll sanitize fault w pollId fd)
          = \<lparr>error = Some ''Please provide a question and at least two options.''\<rparr>) \<and>
     (q \<noteq> [] \<and> 2 \<le> n \<and> 255 < length q \<longrightarrow>
        snd (createPoll sanitize g fault w fd)
          = \<lparr>error = Some ''Question exceeds maximum length of 255 characters.''\<rparr> \<and>
        snd (updatePoll sanitize fault w pollId fd)
          = \<lparr>error = Some ''Question exceeds maximum length of 255 characters.''\<rparr>) \<and>
     (q \<noteq> [] \<and> length q \<le> 255 \<and> 10 < n \<longrightarrow>
        snd (createPoll sanitize g fault w fd)
          = \<lparr>error = Some ''A poll cannot have more than 10 options.''\<rparr> \<and>
        snd (updatePoll sanitize fault w pollId fd)
          = \<lparr>error = Some ''A poll cannot have more than 10 options.''\<rparr>) \<and>
     (q \<noteq> [] \<and> length q \<le> 255 \<and> 2 \<le> n \<and> n \<le> 10 \<and> long \<longrightarrow>
        snd (createPoll sanitize g fault w fd)
          = \<lparr>error = Some ''One or more options exceed maximum length of 100 characters.''\<rparr> \<and>
        snd (updatePoll sanitize fault w pollId fd)
          = \<lparr>error =
               Some ''One or more options exceed maximum length of 100 characters.''\<rparr>)"
    unfolding q_def n_def long_def
    by (auto simp: createPoll_checks updatePoll_checks)
  have anonymous: "q \<noteq> [] \<and> length q \<le> 255 \<and> 2 \<le> n \<and> n \<le> 10 \<and> \<not> long \<and>
      auth_error w = None \<and> auth_user w = None \<longrightarrow>
        createPoll sanitize g fault w fd
          = (w, \<lparr>error = Some ''You must be logged in to create a poll.''\<rparr>) \<and>
        updatePoll sanitize fault w pollId fd
          = (w, \<lparr>error = Some ''You must be logged in to update a poll.''\<rparr>)"
    unfolding q_def n_def long_def
    by (auto simp: createPoll_checks updatePoll_checks)
  have only_create: "auth_error w \<noteq> Some ''You must be logged in to create a poll.'' \<and>
      map_option message fault \<noteq> Some ''You must be logged in to create a poll.'' \<and>
      snd (createPoll sanitize g fault w fd)
        = \<lparr>error = Some ''You must be logged in to create a poll.''\<rparr> \<longrightarrow>
        auth_user w = None \<and>
        q \<noteq> [] \<and> length q \<le> 255 \<and> 2 \<le> n \<and> n \<le> 10 \<and> \<not> long"
    unfolding q_def n_def long_def createPoll_checks
    by (simp split: if_splits option.splits)
  have only_update: "auth_error w \<noteq> Some ''You must be logged in to update a poll.'' \<and>
      map_option message fault \<noteq> Some ''You must be logged in to update a poll.'' \<and>
      snd (updatePoll sanitize fault w pollId fd)
        = \<lparr>error = Some ''You must be logged in to update a poll.''\<rparr> \<longrightarrow>
        auth_user w = None \<and>
        q \<noteq> [] \<and> length q \<le> 255 \<and> 2 \<le> n \<and> n \<le> 10 \<and> \<not> long"
    unfolding q_def n_def long_def updatePoll_checks
    by (simp split: if_splits option.splits)
  from rejected anonymous only_create only_update show ?thesis by blast
qed


theorem validation_before_authentication_witness:
  "auth_user (sample_world None) = None \<and>
   snd (createPoll sample_sanitize sample_generated None (sample_world None)
          \<lparr>form_question = ''<script></script>'', form_options = [''tea'', ''coffee'']\<rparr>)
     = \<lparr>error = Some ''Please provide a question and at least two options.''\<rparr> \<and>
   snd (updatePoll sample_sanitize None (sample_world None) ''p1''
          \<lparr>form_question = ''<script></script>'', form_options = [''tea'', ''coffee'']\<rparr>)
     = \<lparr>error = Some ''Please provide a question and at least two options.''\<rparr> \<and>
   snd (createPoll sample_sanitize sample_generated None (sample_world None)
          \<lparr>form_question = ''Pick one'', form_options = replicate 11 ''x''\<rparr>)
     = \<lparr>error = Some ''A poll cannot have more than 10 options.''\<rparr> \<and>
   createPoll sample_sanitize sample_generated None (sample_world None)
          \<lparr>form_question = ''Pick one'', form_options = [''tea'', ''coffee'']\<rparr>
     = (sample_world None, \<lparr>error = Some ''You must be logged in to create a poll.''\<rparr>) \<and>
   updatePoll sample_sanitize None (sample_world None) ''p1''
          \<lparr>form_question = ''Pick one'', form_options = [''tea'', ''coffee'']\<rparr>
     = (sample_world None, \<lparr>error = Some ''You must be logged in to update a poll.''\<rparr>)"
proof -
  have s: "sample_sanitize ''<script></script>'' = []" "sample_sanitize ''Pick one'' = ''Pick one''"
      "sample_sanitize ''tea'' = ''tea''" "sample_sanitize ''coffee'' = ''coffee''"
      "sample_sanitize ''x'' = ''x''"
    by (simp_all add: sample_sanitize_def)
  have w: "auth_error (sample_world None) = None" "auth_user (sample_world None) = None"
    by (simp_all add: sample_world_def)
  note t = validation_before_authentication [where sanitize = sample_sanitize
      and g = sample_generated and fault = None and w = "sample_world None"
      and pollId = "''p1''"]
  have empty: "snd (createPoll sample_sanitize sample_generated None (sample_world None)
          \<lparr>form_question = ''<script></script>'', form_options = [''tea'', ''coffee'']\<rparr>)
     = \<lparr>error = Some ''Please provide a question and at least two options.''\<rparr> \<and>
   snd (updatePoll sample_sanitize None (sample_world None) ''p1''
          \<lparr>form_question = ''<script></script>'', form_options = [''tea'', ''coffee'']\<rparr>)
     = \<lparr>error = Some ''Please provide a question and at least two options.''\<rparr>"
    by (rule t [THEN conjunct1, THEN mp]) (simp add: s)
  have many: "snd (createPoll sample_sanitize sample_generated None (sample_world None)
          \<lparr>form_question = ''Pick one'', form_options = replicate 11 ''x''\<rparr>)
     = \<lparr>error = Some ''A poll cannot have more than 10 options.''\<rparr> \<and>
   snd (updatePoll sample_sanitize None (sample_world None) ''p1''
          \<lparr>form_question = ''Pick one'', form_options = replicate 11 ''x''\<rparr>)
     = \<lparr>error = Some ''A poll cannot have more than 10 options.''\<rparr>"
    by (rule t [THEN conjunct2, THEN conjunct2, THEN conjunct1, THEN mp]) (simp add: s)
  have login: "createPoll sample_sanitize sample_generated None (sample_world None)
          \<lparr>form_question = ''Pick one'', form_options = [''tea'', ''coffee'']\<rparr>
     = (sample_world None, \<lparr>error = Some ''You must be logged in to create a poll.''\<rparr>) \<and>
   updatePoll sample_sanitize None (sample_world None) ''p1''
          \<lparr>form_question = ''Pick one'', form_options = [''tea'', ''coffee'']\<rparr>
     = (sample_world None, \<lparr>error = Some ''You must be logged in to update a poll.''\<rparr>)"
    by (rule t [THEN conjunct2, THEN conjunct2, THEN conjunct2, THEN conjunct2,
                THEN conjunct1, THEN mp])
      (simp add: s w)
  from empty many login w show ?thesis by simp
qed

subsection \<open>updatePoll\<close>

text \<open>
  C2. With input that passes validation, a session and the store answering,
  \<open>updatePoll\<close> leaves every poll the caller does not own as it is, whatever the
  caller's \<open>is_admin\<close> flag and whatever poll id is given, and returns a null error: the
  filter of the update is the id and the owner, with no case for administrators.
\<close>

theorem updatePoll_no_admin_override:
  assumes "sanitize (form_question fd) \<noteq> []"
    and "length (sanitize (form_question fd)) \<le> 255"
    and "2 \<le> length (filter (\<lambda>s. s \<noteq> []) (form_options fd))"
    and "length (filter (\<lambda>s. s \<noteq> []) (form_options fd)) \<le> 10"
    and "\<forall>s \<in> set (form_options fd). s \<noteq> [] \<longrightarrow> length (sanitize s) \<le> 100"
    and "auth_error w = None" and "auth_user w = Some u"
    and "target \<in> set (polls_table w)" and "p_user_id target \<noteq> u_id u"
  shows "target \<in> set (polls_table (fst (updatePoll sanitize None w pollId fd))) \<and>
         filter (\<lambda>p. p_user_id p \<noteq> u_id u)
             (polls_table (fst (updatePoll sanitize None w pollId fd)))
           = filter (\<lambda>p. p_user_id p \<noteq> u_id u) (polls_table w) \<and>
         snd (updatePoll sanitize None w pollId fd) = \<lparr>error = None\<rparr>"
proof -
  define upd where "upd = (\<lambda>p::poll. if p_id p = pollId \<and> p_user_id p = u_id u
                   then p\<lparr>question := sanitize (form_question fd),
                          options := map sanitize (filter (\<lambda>s. s \<noteq> []) (form_options fd))\<rparr>
                   else p)"
  have run: "updatePoll sanitize None w pollId fd
               = (w\<lparr>polls_table := map upd (polls_table w)\<rparr>, \<lparr>error = None\<rparr>)"
    unfolding upd_def using assms(1-7) by (auto simp: updatePoll_checks)
  have "upd target = target" using assms(9) by (simp add: upd_def)
  with assms(8) have mem: "target \<in> set (map upd (polls_table w))"
    by (rule map_fixed_member)
  have "filter (\<lambda>p. p_user_id p \<noteq> u_id u) (map upd (polls_table w))
          = filter (\<lambda>p. p_user_id p \<noteq> u_id u) (polls_table w)"
    by (rule filter_map_untouched) (simp_all add: upd_def)
  with run mem show ?thesis by simp
qed

theorem updatePoll_no_admin_override_witness:
  "is_admin root = Some True \<and> p_user_id private_poll \<noteq> u_id root \<and>
   private_poll \<in> set (polls_table (fst (updatePoll sample_sanitize None
       (sample_world (Some root)) (p_id private_poll)
       \<lparr>form_question = ''Changed?'', form_options = [''yes'', ''no'']\<rparr>))) \<and>
   snd (updatePoll sample_sanitize None (sample_world (Some root)) (p_id private_poll)
       \<lparr>form_question = ''Changed?'', form_options = [''yes'', ''no'']\<rparr>) = \<lparr>error = None\<rparr>"
proof -
  have "sample_sanitize ''Changed?'' = ''Changed?''" and "sample_sanitize ''yes'' = ''yes''"
    and "sample_sanitize ''no'' = ''no''"
    by (simp_all add: sample_sanitize_def)
  moreover have "auth_user (sample_world (Some root)) = Some root"
    and "auth_error (sample_world (Some root)) = None"
    and "private_poll \<in> set (polls_table (sample_world (Some root)))"
    by (simp_all add: sample_world_def)
  moreover have "is_admin root = Some True" and "p_user_id private_poll \<noteq> u_id root"
    by (simp_all add: root_def private_poll_def)
  ultimately show ?thesis
    using updatePoll_no_admin_override [of sample_sanitize
      "\<lparr>form_question = ''Changed?'', form_options = [''yes'', ''no'']\<rparr>"
      "sample_world (Some root)" root private_poll "p_id private_poll"]
    by simp
qed

end
